theory Spec2Isabelle
  imports Main "HOL-Library.Word"
begin

section \<open>G1 epoch synchronization: data model\<close>

text \<open>
  The epoch counters are \<open>uintx\<close> values: unsigned integers of pointer width.  The
  development is generic in that width: a counter is an \<open>'a word\<close>, so every theorem
  holds for the 32-bit and the 64-bit virtual machine alike.  \<open>size_t\<close> has the same
  width on every platform HotSpot supports and is an \<open>'a word\<close> too; \<open>jlong\<close> is a
  \<open>64 word\<close> read as two's complement.
\<close>

type_synonym jlong = "64 word"

text \<open>
  Modelled from the spec: \<open>max_uintx\<close> (globalDefinitions.hpp is not among the sources)
  is the largest value of the counter type, the spec's \<open>MAX\<close>: all bits set.
\<close>

definition max_uintx :: "'a::len word" where
  "max_uintx = - 1"

subsection \<open>Epoch algebra (g1EpochSynchronizer.cpp)\<close>

text \<open>
  \<open>return (f1 - f2) > (max_uintx / 2);\<close>  The subtraction wraps and the comparison is
  unsigned.
\<close>

definition frontier_happens_before :: "'a::len word \<Rightarrow> 'a word \<Rightarrow> bool" where
  "frontier_happens_before f1 f2 = (f1 - f2 > max_uintx div 2)"

subsection \<open>Statistic counters (g1EpochSynchronizerStats.hpp and .cpp)\<close>

text \<open>
  Modelled from the spec: \<open>Tickspan\<close> (utilities/ticks.hpp is not among the sources) is
  a counter with wrap-around arithmetic; it holds a \<open>jlong\<close> number of ticks, its default
  constructor gives zero, and \<open>+=\<close> and \<open>-=\<close> add and subtract the tick counts.
\<close>

type_synonym Tickspan = jlong

record (overloaded) 'a G1EpochSynchronizerStats =
  fast_sync_time :: Tickspan
  deferred_sync_time :: Tickspan
  fast_syncs :: "'a word"
  deferred_syncs :: "'a word"

text \<open>The default constructor: both time spans default-constructed, both counts 0.\<close>

definition G1EpochSynchronizerStats_new :: "'a::len G1EpochSynchronizerStats" where
  "G1EpochSynchronizerStats_new =
     \<lparr> fast_sync_time = 0, deferred_sync_time = 0, fast_syncs = 0, deferred_syncs = 0 \<rparr>"

definition inc_fast_sync_time ::
  "Tickspan \<Rightarrow> 'a::len G1EpochSynchronizerStats \<Rightarrow> 'a G1EpochSynchronizerStats" where
  "inc_fast_sync_time t x = x\<lparr> fast_sync_time := fast_sync_time x + t \<rparr>"

definition inc_deferred_sync_time ::
  "Tickspan \<Rightarrow> 'a::len G1EpochSynchronizerStats \<Rightarrow> 'a G1EpochSynchronizerStats" where
  "inc_deferred_sync_time t x = x\<lparr> deferred_sync_time := deferred_sync_time x + t \<rparr>"

definition inc_fast_syncs ::
  "'a::len G1EpochSynchronizerStats \<Rightarrow> 'a G1EpochSynchronizerStats" where
  "inc_fast_syncs x = x\<lparr> fast_syncs := fast_syncs x + 1 \<rparr>"

definition inc_deferred_syncs ::
  "'a::len G1EpochSynchronizerStats \<Rightarrow> 'a G1EpochSynchronizerStats" where
  "inc_deferred_syncs x = x\<lparr> deferred_syncs := deferred_syncs x + 1 \<rparr>"

text \<open>\<open>operator+=\<close> and \<open>operator-=\<close>: the object updated in place is the result.\<close>

definition stats_plus_assign ::
  "'a::len G1EpochSynchronizerStats \<Rightarrow> 'a G1EpochSynchronizerStats \<Rightarrow>
   'a G1EpochSynchronizerStats" where
  "stats_plus_assign this other =
     this\<lparr> fast_sync_time := fast_sync_time this + fast_sync_time other,
           deferred_sync_time := deferred_sync_time this + deferred_sync_time other,
           fast_syncs := fast_syncs this + fast_syncs other,
           deferred_syncs := deferred_syncs this + deferred_syncs other \<rparr>"

definition stats_minus_assign ::
  "'a::len G1EpochSynchronizerStats \<Rightarrow> 'a G1EpochSynchronizerStats \<Rightarrow>
   'a G1EpochSynchronizerStats" where
  "stats_minus_assign this other =
     this\<lparr> fast_sync_time := fast_sync_time this - fast_sync_time other,
           deferred_sync_time := deferred_sync_time this - deferred_sync_time other,
           fast_syncs := fast_syncs this - fast_syncs other,
           deferred_syncs := deferred_syncs this - deferred_syncs other \<rparr>"

text \<open>The friend operators take \<open>x\<close> by value and return \<open>x += y\<close>, \<open>x -= y\<close>.\<close>

definition stats_plus ::
  "'a::len G1EpochSynchronizerStats \<Rightarrow> 'a G1EpochSynchronizerStats \<Rightarrow>
   'a G1EpochSynchronizerStats" where
  "stats_plus x y = stats_plus_assign x y"

definition stats_minus ::
  "'a::len G1EpochSynchronizerStats \<Rightarrow> 'a G1EpochSynchronizerStats \<Rightarrow>
   'a G1EpochSynchronizerStats" where
  "stats_minus x y = stats_minus_assign x y"


subsection \<open>Threads, shared state and failures\<close>

text \<open>
  A Java thread as the protocol sees it.  \<open>epoch\<close> is the thread-local counter
  \<open>G1ThreadLocalData::epoch(thread)\<close>; \<open>has_operation\<close> is what
  \<open>handshake_state()->has_operation()\<close> answers; \<open>local_poll_armed\<close> is the state of
  the thread's safepoint poll; \<open>parked\<close> says that the thread is blocked or in native
  code, where the handshake machinery may act on its behalf.  A \<open>JavaThread*\<close> is the
  index of the thread in the list of Java threads.
\<close>

record (overloaded) 'a JavaThread =
  epoch :: "'a word"
  has_operation :: bool
  local_poll_armed :: bool
  parked :: bool

text \<open>
  The static fields of \<open>G1EpochSynchronizer\<close>, the list of Java threads and whether
  the virtual machine is at a safepoint.  \<open>pending_sync\<close> exists in debug builds only.
\<close>

record (overloaded) 'a epoch_state =
  global_epoch :: "'a word"
  global_frontier :: "'a word"
  pending_sync :: "'a word"
  reset_all_epoch_scheduled :: bool
  java_threads :: "'a JavaThread list"
  at_safepoint :: bool

text \<open>\<open>Thread::current()\<close>: which thread runs the code.\<close>

datatype current_thread =
  Java_thread nat | ConcurrentGC_thread | VM_thread | Other_thread

text \<open>
  A failed \<open>assert\<close> stops a debug build (\<open>ASSERT\<close> defined); a product build has no
  assertions.  Every function below takes the build as its first argument \<open>dbg\<close>.
\<close>

datatype vm_error = AssertionFailure string

text \<open>The initiator: \<open>class G1EpochSynchronizer\<close> holds one \<open>uintx\<close> field.\<close>

record (overloaded) 'a G1EpochSynchronizer =
  required_frontier :: "'a word"

subsection \<open>The epoch updater (g1EpochUpdater.inline.hpp, held in the file of TestBreakSignalThreadDump.java)\<close>

text \<open>
  \<open>G1EpochUpdater::update_epoch_internal\<close>.  The argument is a \<open>Thread*\<close>.  In a debug
  build it asserts that the virtual machine is not at a safepoint, that the thread is a
  Java thread, and that the thread's epoch is at most the global epoch, compared as
  plain unsigned numbers; then the global epoch is stored to the thread's epoch.  A
  product build only stores.  The slot of a thread outside the list is not part of the
  state.
\<close>

definition update_epoch_internal ::
  "bool \<Rightarrow> current_thread \<Rightarrow> 'a::len epoch_state \<Rightarrow> vm_error + 'a epoch_state" where
  "update_epoch_internal dbg thread s =
     (if dbg \<and> at_safepoint s then Inl (AssertionFailure ''assert_not_at_safepoint'')
      else
        (case thread of
           Java_thread i \<Rightarrow>
             if i < length (java_threads s)
             then
               (let ge = global_epoch s;
                    local_epoch = epoch (java_threads s ! i)
                in if dbg \<and> \<not> local_epoch \<le> ge then Inl (AssertionFailure ''Epoch overflow'')
                   else Inr (s\<lparr> java_threads :=
                              (java_threads s)[i := (java_threads s ! i)\<lparr> epoch := ge \<rparr>] \<rparr>))
             else Inr s
         | _ \<Rightarrow> if dbg then Inl (AssertionFailure ''must be a Java thread'') else Inr s))"

text \<open>
  A Java thread that is not in the list of Java threads has an epoch slot too, but no
  scan reads it and the state does not hold it.  The properties below are stated for
  callers that are in the list.
\<close>

definition caller_listed :: "current_thread \<Rightarrow> 'a::len epoch_state \<Rightarrow> bool" where
  "caller_listed self s =
     (case self of Java_thread i \<Rightarrow> i < length (java_threads s) | _ \<Rightarrow> True)"

text \<open>
  \<open>update_epoch_self\<close> asserts \<open>thread == Thread::current()\<close> first;
  \<open>update_epoch_self_or_other\<close> does not.
\<close>

definition update_epoch_self ::
  "bool \<Rightarrow> current_thread \<Rightarrow> current_thread \<Rightarrow> 'a::len epoch_state \<Rightarrow>
   vm_error + 'a epoch_state" where
  "update_epoch_self dbg self thread s =
     (if dbg \<and> thread \<noteq> self
      then Inl (AssertionFailure ''epoch is updated by a remote thread'')
      else update_epoch_internal dbg thread s)"

definition update_epoch_self_or_other ::
  "bool \<Rightarrow> current_thread \<Rightarrow> 'a::len epoch_state \<Rightarrow> vm_error + 'a epoch_state" where
  "update_epoch_self_or_other dbg thread s = update_epoch_internal dbg thread s"

subsection \<open>Collaborators that are not among the sources\<close>


text \<open>
  Modelled from the spec: \<open>SafepointMechanism::arm_local_poll\<close> (missing) makes the
  target's next poll take the slow path.
\<close>

definition arm_local_poll :: "nat \<Rightarrow> 'a::len epoch_state \<Rightarrow> 'a epoch_state" where
  "arm_local_poll jt s =
     (if jt < length (java_threads s)
      then s\<lparr> java_threads :=
                (java_threads s)[jt := (java_threads s ! jt)\<lparr> local_poll_armed := True \<rparr>] \<rparr>
      else s)"

text \<open>
  Modelled from the spec: \<open>HandshakeState::DelegateProcessingScope\<close> (missing).  Its
  result is \<open>_processed\<close> exactly if the target is safely parked.
\<close>

datatype ProcessResult = processed | not_processed

definition DelegateProcessingScope_result :: "nat \<Rightarrow> 'a::len epoch_state \<Rightarrow> ProcessResult" where
  "DelegateProcessingScope_result jt s =
     (if jt < length (java_threads s) \<and> parked (java_threads s ! jt)
      then processed else not_processed)"


subsection \<open>Atomic operations on the static fields\<close>

text \<open>
  Modelled from the spec: \<open>Atomic::cmpxchg\<close> (runtime/atomic.hpp is missing) is one
  compare-and-swap.  \<open>Atomic::cmpxchg(&_global_frontier, compare, exchange)\<close> stores
  \<open>exchange\<close> only if the field still holds \<open>compare\<close>; the callers ignore the value
  it returns.
\<close>

definition cmpxchg_global_frontier ::
  "'a::len word \<Rightarrow> 'a word \<Rightarrow> 'a epoch_state \<Rightarrow> 'a epoch_state" where
  "cmpxchg_global_frontier compare_value exchange_value s =
     (if global_frontier s = compare_value
      then s\<lparr> global_frontier := exchange_value \<rparr> else s)"

text \<open>\<open>Atomic::dec(&_pending_sync)\<close> under \<open>#ifdef ASSERT\<close>; empty in a product build.\<close>

definition dec_pending_sync :: "bool \<Rightarrow> 'a::len epoch_state \<Rightarrow> 'a epoch_state" where
  "dec_pending_sync dbg s = (if dbg then s\<lparr> pending_sync := pending_sync s - 1 \<rparr> else s)"

subsection \<open>The wrap-aware generation (g1EpochSynchronizer.cpp)\<close>

text \<open>\<open>G1FindMinEpochAndCollectThreadsClosure\<close>; \<open>cl_threads\<close> is the growable array.\<close>

record (overloaded) 'a G1FindMinEpochAndCollectThreadsClosure =
  cl_min_epoch :: "'a word"
  cl_collect_threads :: bool
  cl_required_frontier :: "'a word"
  cl_threads :: "nat list"

definition G1FindMinEpochAndCollectThreadsClosure_new ::
  "'a::len word \<Rightarrow> bool \<Rightarrow> nat list \<Rightarrow> 'a G1FindMinEpochAndCollectThreadsClosure" where
  "G1FindMinEpochAndCollectThreadsClosure_new required collect_threads collected_threads =
     \<lparr> cl_min_epoch = max_uintx, cl_collect_threads = collect_threads,
       cl_required_frontier = required, cl_threads = collected_threads \<rparr>"

definition do_thread ::
  "'a::len epoch_state \<Rightarrow> 'a G1FindMinEpochAndCollectThreadsClosure \<Rightarrow> nat \<Rightarrow>
   'a G1FindMinEpochAndCollectThreadsClosure" where
  "do_thread s cl thread =
     (let epoch = epoch (java_threads s ! thread);
          cl1 = (if frontier_happens_before epoch (cl_min_epoch cl)
                 then cl\<lparr> cl_min_epoch := epoch \<rparr> else cl)
      in if cl_collect_threads cl1 \<and> frontier_happens_before epoch (cl_required_frontier cl1)
         then cl1\<lparr> cl_threads := cl_threads cl1 @ [thread] \<rparr>
         else cl1)"

text \<open>The loop over the Java thread iterator, every thread once and in list order.\<close>

definition java_threads_do ::
  "'a::len epoch_state \<Rightarrow> 'a G1FindMinEpochAndCollectThreadsClosure \<Rightarrow>
   'a G1FindMinEpochAndCollectThreadsClosure" where
  "java_threads_do s cl = foldl (do_thread s) cl [0 ..< length (java_threads s)]"

text \<open>
  \<open>start_synchronizing\<close>.  Modelled from the spec: \<open>Atomic::add\<close> (runtime/atomic.hpp is
  missing) returns the updated value; the spec has
  \<open>required_frontier = prior_global_epoch + 1\<close>.
\<close>

definition start_synchronizing ::
  "bool \<Rightarrow> 'a::len epoch_state \<Rightarrow> vm_error + ('a word \<times> 'a epoch_state)" where
  "start_synchronizing dbg s =
     (if dbg \<and> at_safepoint s then Inl (AssertionFailure ''assert_not_at_safepoint'')
      else
        let s1 = (if dbg then s\<lparr> pending_sync := pending_sync s + 1 \<rparr> else s);
            required = global_epoch s1 + 1;
            s2 = s1\<lparr> global_epoch := required \<rparr>
        in Inr (required, s2))"

text \<open>The constructor \<open>G1EpochSynchronizer(bool start_sync)\<close>.\<close>

definition G1EpochSynchronizer_new ::
  "bool \<Rightarrow> bool \<Rightarrow> 'a::len epoch_state \<Rightarrow>
   vm_error + ('a G1EpochSynchronizer \<times> 'a epoch_state)" where
  "G1EpochSynchronizer_new dbg start_sync s =
     (if start_sync
      then (case start_synchronizing dbg s of
              Inl e \<Rightarrow> Inl e
            | Inr (required, s1) \<Rightarrow> Inr (\<lparr> required_frontier = required \<rparr>, s1))
      else Inr (\<lparr> required_frontier = 0 \<rparr>, s))"

definition update_global_frontier :: "'a::len word \<Rightarrow> 'a epoch_state \<Rightarrow> 'a epoch_state" where
  "update_global_frontier latest_frontier s =
     (let gf = global_frontier s
      in if frontier_happens_before gf latest_frontier
         then cmpxchg_global_frontier gf latest_frontier s
         else s)"

definition check_frontier_helper ::
  "'a::len word \<Rightarrow> 'a word \<Rightarrow> 'a epoch_state \<Rightarrow> bool \<times> 'a epoch_state" where
  "check_frontier_helper latest_frontier required s =
     (if \<not> frontier_happens_before latest_frontier required
      then (True, update_global_frontier latest_frontier s)
      else (False, s))"



text \<open>
  The first statement of \<open>check_synchronized_inner\<close>: a Java thread updates its own
  epoch; any other caller must be a concurrent GC thread, which a debug build asserts.
\<close>

definition update_epoch_of_caller ::
  "bool \<Rightarrow> current_thread \<Rightarrow> 'a::len epoch_state \<Rightarrow> vm_error + 'a epoch_state" where
  "update_epoch_of_caller dbg self s =
     (case self of
        Java_thread i \<Rightarrow> update_epoch_self dbg self (Java_thread i) s
      | ConcurrentGC_thread \<Rightarrow> Inr s
      | _ \<Rightarrow> if dbg then Inl (AssertionFailure ''must be a refinement thread'')
             else Inr s)"

definition check_synchronized_inner ::
  "bool \<Rightarrow> current_thread \<Rightarrow> 'a::len G1EpochSynchronizer \<Rightarrow> 'a epoch_state \<Rightarrow>
   vm_error + (bool \<times> 'a epoch_state)" where
  "check_synchronized_inner dbg self this s =
     (if dbg \<and> at_safepoint s then Inl (AssertionFailure ''assert_not_at_safepoint'')
      else
        (case update_epoch_of_caller dbg self s of
           Inl e \<Rightarrow> Inl e
         | Inr s1 \<Rightarrow>
             let gf = global_frontier s1;
                 required = required_frontier this
             in if \<not> frontier_happens_before gf required then Inr (True, s1)
                else
                  let cl = java_threads_do s1
                             (G1FindMinEpochAndCollectThreadsClosure_new required False [])
                  in Inr (check_frontier_helper (cl_min_epoch cl) required s1)))"

definition check_synchronized ::
  "bool \<Rightarrow> current_thread \<Rightarrow> 'a::len G1EpochSynchronizer \<Rightarrow> 'a epoch_state \<Rightarrow>
   vm_error + (bool \<times> 'a epoch_state)" where
  "check_synchronized dbg self this s =
     (case check_synchronized_inner dbg self this s of
        Inl e \<Rightarrow> Inl e
      | Inr (result, s1) \<Rightarrow> Inr (result, if result then dec_pending_sync dbg s1 else s1))"






subsection \<open>The poll-arming generation (the second text held in g1EpochSynchronizer.hpp)\<close>

text \<open>
  \<open>frontier_happens_before\<close>, \<open>start_synchronizing\<close>, \<open>update_global_frontier\<close> and
  \<open>check_frontier_helper\<close> of this generation are, word for word, the ones above.
\<close>

record (overloaded) 'a G1FindMinEpochAndArmPollClosure =
  ap_arm_poll :: bool
  ap_required_frontier :: "'a word"
  ap_min_epoch :: "'a word"
  ap_armed_threads :: "'a word"
  ap_report_straggler :: bool

definition G1FindMinEpochAndArmPollClosure_new ::
  "'a::len word \<Rightarrow> bool \<Rightarrow> bool \<Rightarrow> 'a G1FindMinEpochAndArmPollClosure" where
  "G1FindMinEpochAndArmPollClosure_new required arm_poll report_straggler =
     \<lparr> ap_arm_poll = arm_poll, ap_required_frontier = required, ap_min_epoch = max_uintx,
       ap_armed_threads = 0, ap_report_straggler = report_straggler \<rparr>"

text \<open>
  \<open>do_thread\<close> of the poll-arming closure.  It changes the visited thread, so the shared
  state is passed through.  The last \<open>if\<close> of the source only writes a log line.
\<close>

definition do_thread_arm_poll ::
  "bool \<Rightarrow> current_thread \<Rightarrow> 'a::len G1FindMinEpochAndArmPollClosure \<Rightarrow> 'a epoch_state \<Rightarrow> nat \<Rightarrow>
   vm_error + ('a G1FindMinEpochAndArmPollClosure \<times> 'a epoch_state)" where
  "do_thread_arm_poll dbg self cl s thread =
     (let epoch0 = epoch (java_threads s ! thread)
      in case (if ap_arm_poll cl \<and> frontier_happens_before epoch0 (ap_required_frontier cl)
               then (if dbg \<and> self = Java_thread thread
                     then Inl (AssertionFailure ''invariant'')
                     else
                       let s1 = arm_local_poll thread s;
                           cl1 = cl\<lparr> ap_armed_threads := ap_armed_threads cl + 1 \<rparr>
                       in if DelegateProcessingScope_result thread s1 = processed
                          then (case update_epoch_self_or_other dbg (Java_thread thread) s1 of
                                  Inl e \<Rightarrow> Inl e
                                | Inr s2 \<Rightarrow> Inr (epoch (java_threads s2 ! thread), cl1, s2))
                          else Inr (epoch0, cl1, s1))
               else Inr (epoch0, cl, s)) of
           Inl e \<Rightarrow> Inl e
         | Inr (epoch1, cl1, s1) \<Rightarrow>
             Inr (if frontier_happens_before epoch1 (ap_min_epoch cl1)
                  then cl1\<lparr> ap_min_epoch := epoch1 \<rparr> else cl1, s1))"

fun java_threads_do_arm_poll ::
  "bool \<Rightarrow> current_thread \<Rightarrow> nat list \<Rightarrow> 'a::len G1FindMinEpochAndArmPollClosure \<Rightarrow>
   'a epoch_state \<Rightarrow> vm_error + ('a G1FindMinEpochAndArmPollClosure \<times> 'a epoch_state)" where
  "java_threads_do_arm_poll dbg self [] cl s = Inr (cl, s)"
| "java_threads_do_arm_poll dbg self (thread # rest) cl s =
     (case do_thread_arm_poll dbg self cl s thread of
        Inl e \<Rightarrow> Inl e
      | Inr (cl1, s1) \<Rightarrow> java_threads_do_arm_poll dbg self rest cl1 s1)"






subsection \<open>The native-comparison generation (the unnamed source text with \<open>reset_all_epoch\<close>)\<close>

text \<open>
  Modelled from the spec: \<open>MIN2\<close> (globalDefinitions.hpp is missing) gives the smaller of
  two values, here in the native unsigned order: the running minimum of the scan.
\<close>

definition MIN2 :: "'a::len word \<Rightarrow> 'a word \<Rightarrow> 'a word" where
  "MIN2 a b = (if a < b then a else b)"

definition do_thread_native ::
  "'a::len epoch_state \<Rightarrow> 'a G1FindMinEpochAndCollectThreadsClosure \<Rightarrow> nat \<Rightarrow>
   'a G1FindMinEpochAndCollectThreadsClosure" where
  "do_thread_native s cl thread =
     (let epoch = epoch (java_threads s ! thread);
          cl1 = cl\<lparr> cl_min_epoch := MIN2 (cl_min_epoch cl) epoch \<rparr>
      in if cl_collect_threads cl1 \<and> epoch < cl_required_frontier cl1
         then cl1\<lparr> cl_threads := cl_threads cl1 @ [thread] \<rparr>
         else cl1)"

definition java_threads_do_native ::
  "'a::len epoch_state \<Rightarrow> 'a G1FindMinEpochAndCollectThreadsClosure \<Rightarrow>
   'a G1FindMinEpochAndCollectThreadsClosure" where
  "java_threads_do_native s cl = foldl (do_thread_native s) cl [0 ..< length (java_threads s)]"

definition update_global_frontier_native ::
  "'a::len word \<Rightarrow> 'a epoch_state \<Rightarrow> 'a epoch_state" where
  "update_global_frontier_native latest_frontier s =
     (let gf = global_frontier s
      in if gf < latest_frontier
         then cmpxchg_global_frontier gf latest_frontier s
         else s)"

definition check_frontier_helper_native ::
  "'a::len word \<Rightarrow> 'a word \<Rightarrow> 'a epoch_state \<Rightarrow> bool \<times> 'a epoch_state" where
  "check_frontier_helper_native latest_frontier required s =
     (if latest_frontier \<ge> required
      then (True, update_global_frontier_native latest_frontier s)
      else (False, s))"

text \<open>\<open>G1ResetEpochClosure\<close> applied by \<open>Threads::java_threads_do\<close>.\<close>

definition G1ResetEpochClosure_do_thread :: "'a::len JavaThread \<Rightarrow> 'a JavaThread" where
  "G1ResetEpochClosure_do_thread thread = thread\<lparr> epoch := 0 \<rparr>"

text \<open>
  \<open>reset_all_epoch\<close>.  \<open>G1DirtyCardQueueSet::reset_epoch_in_deferred_buffer\<close> is not among
  the sources; the number it returns is the argument \<open>deferred_sync\<close>.  The final
  \<open>assert\<close> reads \<open>_pending_sync\<close>, which a product build does not have.
\<close>

definition reset_all_epoch ::
  "bool \<Rightarrow> current_thread \<Rightarrow> 'a::len word \<Rightarrow> 'a epoch_state \<Rightarrow> vm_error + 'a epoch_state" where
  "reset_all_epoch dbg self deferred_sync s =
     (if dbg \<and> \<not> at_safepoint s then Inl (AssertionFailure ''assert_at_safepoint'')
      else if dbg \<and> self \<noteq> VM_thread then Inl (AssertionFailure ''sanity'')
      else
        let s1 = s\<lparr> global_epoch := 0 \<rparr>;
            s2 = s1\<lparr> global_frontier := 0 \<rparr>;
            s3 = s2\<lparr> java_threads := map G1ResetEpochClosure_do_thread (java_threads s2) \<rparr>;
            s4 = s3\<lparr> reset_all_epoch_scheduled := False \<rparr>
        in if dbg \<and> pending_sync s4 \<noteq> deferred_sync
           then Inl (AssertionFailure ''pending_sync != deferred_sync'')
           else Inr s4)"


subsection \<open>Distance of two counters, and states for the examples\<close>

text \<open>
  Two counter values differ by at most half the counter's range when the larger minus the
  smaller, as unsigned numbers, is at most \<open>max_uintx / 2\<close>: no wrap separates them.
\<close>

definition within_half_range :: "'a::len word \<Rightarrow> 'a word \<Rightarrow> bool" where
  "within_half_range a b =
     (if a \<le> b then b - a \<le> max_uintx div 2 else a - b \<le> max_uintx div 2)"

text \<open>States of a 64-bit virtual machine, outside a safepoint, used in the examples.\<close>

definition example_thread :: "64 word \<Rightarrow> bool \<Rightarrow> 64 JavaThread" where
  "example_thread e p =
     \<lparr> epoch = e, has_operation = False, local_poll_armed = False, parked = p \<rparr>"

definition example_state ::
  "64 word \<Rightarrow> 64 word \<Rightarrow> 64 word \<Rightarrow> 64 JavaThread list \<Rightarrow> 64 epoch_state" where
  "example_state ge gf p ts =
     \<lparr> global_epoch = ge, global_frontier = gf, pending_sync = p,
       reset_all_epoch_scheduled = False, java_threads = ts, at_safepoint = False \<rparr>"

definition example_safepoint_state :: "64 epoch_state" where
  "example_safepoint_state =
     (example_state 4097 4096 1 [example_thread 4097 False, example_thread 4096 True])
       \<lparr> at_safepoint := True, reset_all_epoch_scheduled := True \<rparr>"





section \<open>Properties\<close>

subsection \<open>The comparator\<close>

lemma uint_two_word:
  assumes "2 \<le> LENGTH('a::len)"
  shows "uint (2 :: 'a word) = 2"
  using assms by simp

lemma uint_max_uintx:
  "uint (max_uintx :: 'a::len word) = 2 ^ LENGTH('a) - 1"
  by (simp add: max_uintx_def unsigned_minus_1_eq_mask mask_eq_exp_minus_1)

lemma uint_max_uintx_half:
  "uint (max_uintx div 2 :: 'a::len word) = (2 ^ LENGTH('a) - 1) div 2"
proof -
  have d: "uint (max_uintx div 2 :: 'a word) = uint (max_uintx :: 'a word) div uint (2 :: 'a word)"
    by (rule uint_div)
  show ?thesis
  proof (cases "LENGTH('a) = 1")
    case True
    then have z: "(2 :: 'a word) = 0"
      by (metis One_nat_def word_exp_length_eq_0 power_one_right)
    have "(max_uintx :: 'a word) div 2 = 0"
      unfolding z by simp
    with True show ?thesis
      by simp
  next
    case False
    then have "2 \<le> LENGTH('a)"
      using len_gt_0 [where 'a = 'a] by linarith
    then have "uint (2 :: 'a word) = 2"
      by (rule uint_two_word)
    with d show ?thesis
      by (simp add: uint_max_uintx)
  qed
qed

lemma frontier_happens_before_uint:
  "frontier_happens_before (a :: 'a::len word) b \<longleftrightarrow>
     (2 ^ LENGTH('a) - 1) div 2 < (uint a - uint b) mod 2 ^ LENGTH('a)"
  unfolding frontier_happens_before_def word_less_def uint_max_uintx_half
  by (simp add: uint_word_ariths)

lemma frontier_happens_before_irrefl [simp]:
  "\<not> frontier_happens_before a a"
  by (simp add: frontier_happens_before_def)

text \<open>
  Claim C9.  The wrap-aware comparator is the stated pure function, and it is
  irreflexive: for unsigned values \<open>a\<close> and \<open>b\<close> of the counter's width \<open>w\<close>,
  \<open>frontier_happens_before a b\<close> holds exactly when \<open>(a - b) mod 2 ^ w\<close> is greater than
  \<open>max_uintx / 2\<close>, that is \<open>(2 ^ w - 1) div 2\<close>; and \<open>frontier_happens_before a a\<close> is
  false for every \<open>a\<close>.
\<close>

theorem frontier_happens_before_pure_irreflexive:
  "frontier_happens_before (a :: 'a::len word) b
     = ((uint a - uint b) mod 2 ^ LENGTH('a) > uint (max_uintx :: 'a word) div 2)
   \<and> uint (max_uintx :: 'a word) = 2 ^ LENGTH('a) - 1
   \<and> frontier_happens_before a a = False"
proof -
  have m: "uint (max_uintx :: 'a word) = 2 ^ LENGTH('a) - 1"
    by (rule uint_max_uintx)
  show ?thesis
    unfolding m using frontier_happens_before_uint [of a b] by simp
qed

subsection \<open>The statistic counters\<close>

text \<open>
  Claim C10.  \<open>operator+\<close> and \<open>operator-\<close> of \<open>G1EpochSynchronizerStats\<close> act
  componentwise on the four counters; \<open>(x + y) - y = x\<close> under the counters'
  wrap-around arithmetic; and the default-constructed value, all counters zero, is an
  identity of \<open>operator+\<close> on both sides.
\<close>

theorem stats_plus_minus_componentwise:
  "fast_sync_time (stats_plus x y) = fast_sync_time x + fast_sync_time y
   \<and> deferred_sync_time (stats_plus x y) = deferred_sync_time x + deferred_sync_time y
   \<and> fast_syncs (stats_plus x y) = fast_syncs x + fast_syncs y
   \<and> deferred_syncs (stats_plus x y) = deferred_syncs x + deferred_syncs y
   \<and> fast_sync_time (stats_minus x y) = fast_sync_time x - fast_sync_time y
   \<and> deferred_sync_time (stats_minus x y) = deferred_sync_time x - deferred_sync_time y
   \<and> fast_syncs (stats_minus x y) = fast_syncs x - fast_syncs y
   \<and> deferred_syncs (stats_minus x y) = deferred_syncs x - deferred_syncs y
   \<and> stats_minus (stats_plus x y) y = x
   \<and> stats_plus x G1EpochSynchronizerStats_new = x
   \<and> stats_plus G1EpochSynchronizerStats_new x = x"
  by (simp add: stats_plus_def stats_minus_def stats_plus_assign_def
      stats_minus_assign_def G1EpochSynchronizerStats_new_def)

subsection \<open>The wrap-aware comparator against the native comparison\<close>

lemma half_range_twice:
  "2 * ((2 ^ LENGTH('a::len) - 1) div 2) < (2::int) ^ LENGTH('a)"
  by linarith

lemma uint_sub_le:
  assumes "a \<le> b"
  shows "uint (b - a) = uint b - uint (a :: 'a::len word)"
  using assms uint_minus_simple_alt by auto

lemma mod_neg_shift:
  assumes "0 < N" and "x < 0" and "- N \<le> x"
  shows "x mod N = x + (N::int)"
proof -
  have "x mod N = (x + N) mod N"
    by simp
  also have "\<dots> = x + N"
    using assms by (intro mod_pos_pos_trivial) simp_all
  finally show ?thesis .
qed

lemma within_half_range_uint:
  "within_half_range (a :: 'a::len word) b
     \<longleftrightarrow> \<bar>uint a - uint b\<bar> \<le> (2 ^ LENGTH('a) - 1) div 2"
proof (cases "a \<le> b")
  case True
  then have "uint a \<le> uint b"
    by (simp add: word_le_def)
  with True show ?thesis
    by (simp add: within_half_range_def word_le_def [of "b - a"] uint_max_uintx_half
        uint_sub_le)
next
  case False
  then have "b \<le> a"
    by simp
  then have u: "uint (a - b) = uint a - uint b"
    by (rule uint_sub_le)
  from False have "uint b < uint a"
    by (simp add: word_le_def not_le)
  with False show ?thesis
    by (simp add: within_half_range_def word_le_def [of "a - b"] uint_max_uintx_half u)
qed

lemma frontier_happens_before_native:
  assumes "within_half_range (a :: 'a::len word) b"
  shows "frontier_happens_before a b \<longleftrightarrow> a < b"
proof -
  let ?N = "(2::int) ^ LENGTH('a)"
  let ?H = "(?N - 1) div 2"
  have H2: "2 * ?H < ?N"
    by (rule half_range_twice)
  have d: "\<bar>uint a - uint b\<bar> \<le> ?H"
    using assms by (simp add: within_half_range_uint)
  show ?thesis
  proof (cases "a < b")
    case True
    then have lt: "uint a < uint b"
      by (simp add: word_less_def)
    have "(uint a - uint b) mod ?N = uint a - uint b + ?N"
      using lt d H2 by (intro mod_neg_shift) simp_all
    with d lt H2 show ?thesis
      using True by (simp add: frontier_happens_before_uint)
  next
    case False
    then have ge: "uint b \<le> uint a"
      by (simp add: word_less_def not_less)
    have "(uint a - uint b) mod ?N = uint a - uint b"
      using ge d H2 by (intro mod_pos_pos_trivial) simp_all
    with d ge show ?thesis
      using False by (simp add: frontier_happens_before_uint)
  qed
qed

lemmas example_defs = example_state_def example_thread_def

text \<open>
  Claim C7, as stated, fails.  \<open>update_global_frontier\<close> compares the latest frontier with
  the global frontier, which the claim's hypothesis does not bound: with
  \<open>latest_frontier = required_frontier = 2 ^ 63 + 5\<close> and a global frontier of 0 on a
  64-bit machine, both generations return true, but only the native comparison raises
  the global frontier.
\<close>

theorem comparator_generations_differ_far_global_frontier:
  "within_half_range (2 ^ 63 + 5 :: 64 word) (2 ^ 63 + 5)
   \<and> check_frontier_helper (2 ^ 63 + 5) (2 ^ 63 + 5) (example_state (2 ^ 63 + 5) 0 1 [])
       = (True, example_state (2 ^ 63 + 5) 0 1 [])
   \<and> check_frontier_helper_native (2 ^ 63 + 5) (2 ^ 63 + 5)
         (example_state (2 ^ 63 + 5) 0 1 [])
       = (True, example_state (2 ^ 63 + 5) (2 ^ 63 + 5) 1 [])
   \<and> check_frontier_helper (2 ^ 63 + 5) (2 ^ 63 + 5) (example_state (2 ^ 63 + 5) 0 1 [])
       \<noteq> check_frontier_helper_native (2 ^ 63 + 5) (2 ^ 63 + 5)
           (example_state (2 ^ 63 + 5) 0 1 [])
   \<and> update_global_frontier (2 ^ 63 + 5) (example_state (2 ^ 63 + 5) 0 1 [])
       \<noteq> update_global_frontier_native (2 ^ 63 + 5) (example_state (2 ^ 63 + 5) 0 1 [])"
  by (simp add: within_half_range_def max_uintx_def check_frontier_helper_def
      check_frontier_helper_native_def update_global_frontier_def
      update_global_frontier_native_def cmpxchg_global_frontier_def
      frontier_happens_before_def example_defs)

text \<open>
  Claim C7, amended.  When \<open>latest_frontier\<close> and \<open>required_frontier\<close> differ by at most
  half the counter's range, and so do the global frontier and \<open>latest_frontier\<close>, the
  wrap-aware \<open>check_frontier_helper\<close> and \<open>update_global_frontier\<close> return the same
  result and leave the same state as those of the native-comparison generation.
\<close>

theorem comparator_generations_agree_within_half_range:
  assumes "within_half_range latest_frontier required"
    and "within_half_range (global_frontier s) latest_frontier"
  shows "check_frontier_helper latest_frontier required s
           = check_frontier_helper_native latest_frontier required s
         \<and> update_global_frontier latest_frontier s
           = update_global_frontier_native latest_frontier s"
  using frontier_happens_before_native [OF assms(1)]
    frontier_happens_before_native [OF assms(2)]
  by (simp add: check_frontier_helper_def check_frontier_helper_native_def
      update_global_frontier_def update_global_frontier_native_def not_less)

theorem comparator_generations_agree_witness:
  "within_half_range (6 :: 64 word) 6
   \<and> within_half_range (global_frontier (example_state 6 5 1 [example_thread 6 False])) 6
   \<and> check_frontier_helper 6 6 (example_state 6 5 1 [example_thread 6 False])
       = check_frontier_helper_native 6 6 (example_state 6 5 1 [example_thread 6 False])
   \<and> check_frontier_helper 6 6 (example_state 6 5 1 [example_thread 6 False])
       = (True, example_state 6 6 1 [example_thread 6 False])"
proof -
  have h1: "within_half_range (6 :: 64 word) 6"
    by (simp add: within_half_range_def max_uintx_def)
  have h2: "within_half_range (global_frontier (example_state 6 5 1 [example_thread 6 False])) 6"
    by (simp add: within_half_range_def max_uintx_def example_defs)
  show ?thesis
    using h1 h2 comparator_generations_agree_within_half_range [OF h1 h2]
    by (simp add: check_frontier_helper_native_def update_global_frontier_native_def
        cmpxchg_global_frontier_def example_defs)
qed

subsection \<open>The safepoint reset\<close>

text \<open>
  Claim C8.  Run at a safepoint on the VM thread, \<open>reset_all_epoch\<close> leaves the global
  epoch 0, the global frontier 0, the epoch of every Java thread 0 and the reset flag
  false; and its assertion fails exactly if, in a debug build, \<open>pending_sync\<close> differs
  from the number \<open>deferred_sync\<close> the deferred buffer reports.
\<close>

theorem reset_all_epoch_postcondition:
  assumes "at_safepoint s" and "self = VM_thread"
  shows "(dbg \<and> pending_sync s \<noteq> deferred_sync \<longrightarrow>
            reset_all_epoch dbg self deferred_sync s
              = Inl (AssertionFailure ''pending_sync != deferred_sync''))
       \<and> (\<not> (dbg \<and> pending_sync s \<noteq> deferred_sync) \<longrightarrow>
            (\<exists>s'. reset_all_epoch dbg self deferred_sync s = Inr s'
                \<and> global_epoch s' = 0 \<and> global_frontier s' = 0
                \<and> length (java_threads s') = length (java_threads s)
                \<and> (\<forall>t \<in> set (java_threads s'). epoch t = 0)
                \<and> \<not> reset_all_epoch_scheduled s'))"
  using assms
  by (auto simp: reset_all_epoch_def G1ResetEpochClosure_do_thread_def Let_def)

theorem reset_all_epoch_witness:
  "at_safepoint example_safepoint_state
   \<and> reset_all_epoch True VM_thread 1 example_safepoint_state
       = Inr ((example_state 0 0 1 [example_thread 0 False, example_thread 0 True])
                \<lparr> at_safepoint := True \<rparr>)
   \<and> reset_all_epoch True VM_thread 0 example_safepoint_state
       = Inl (AssertionFailure ''pending_sync != deferred_sync'')"
proof -
  have h: "at_safepoint example_safepoint_state"
    by (simp add: example_safepoint_state_def example_defs)
  show ?thesis
    using h reset_all_epoch_postcondition [OF h refl, of True 1]
      reset_all_epoch_postcondition [OF h refl, of True 0]
    by (simp add: example_safepoint_state_def example_defs reset_all_epoch_def
        G1ResetEpochClosure_do_thread_def)
qed

subsection \<open>The thread scan\<close>

text \<open>
  Claim C6 does not hold of the code.  Both wrap-aware closures start the running
  minimum at \<open>max_uintx\<close>, which the wrap-aware order places just before 0, and replace
  it only by an epoch that happens before it.  For a single Java thread with local
  epoch 5 the scan ends with \<open>min_epoch = max_uintx\<close>, not 5: in the observing scan,
  in the scan that collects stragglers and in the scan that arms polls.  The closure of
  the native-comparison generation, which starts at \<open>max_uintx\<close> as well but takes
  \<open>MIN2\<close>, ends with 5.
\<close>

theorem scan_min_epoch_stays_max_uintx:
  "cl_min_epoch (java_threads_do (example_state 5 0 1 [example_thread 5 False])
       (G1FindMinEpochAndCollectThreadsClosure_new 5 False [])) = max_uintx
   \<and> cl_min_epoch (java_threads_do (example_state 5 0 1 [example_thread 5 False])
       (G1FindMinEpochAndCollectThreadsClosure_new 5 True [])) = max_uintx
   \<and> map_sum id (ap_min_epoch \<circ> fst)
        (java_threads_do_arm_poll True ConcurrentGC_thread [0 ..< 1]
           (G1FindMinEpochAndArmPollClosure_new 5 True False)
           (example_state 5 0 1 [example_thread 5 False])) = Inr max_uintx
   \<and> map_sum id (ap_min_epoch \<circ> fst)
        (java_threads_do_arm_poll True ConcurrentGC_thread [0 ..< 1]
           (G1FindMinEpochAndArmPollClosure_new 5 False False)
           (example_state 5 0 1 [example_thread 5 False])) = Inr max_uintx
   \<and> (max_uintx :: 64 word) \<noteq> epoch (example_thread 5 False)
   \<and> cl_min_epoch (java_threads_do_native (example_state 5 0 1 [example_thread 5 False])
       (G1FindMinEpochAndCollectThreadsClosure_new 5 False [])) = 5"
  by (simp add: java_threads_do_def do_thread_def do_thread_arm_poll_def
      java_threads_do_native_def do_thread_native_def MIN2_def
      G1FindMinEpochAndCollectThreadsClosure_new_def G1FindMinEpochAndArmPollClosure_new_def
      frontier_happens_before_def max_uintx_def example_defs)

subsection \<open>\<open>check_synchronized\<close>\<close>

text \<open>
  Claim C2 does not hold of the code, by the same defect as claim C6.  With the
  global frontier at 0, a required frontier of 1 and one Java thread whose local epoch
  is 1, the minimum of the observed epochs is 1, which does not happen before 1; but the
  scan returns \<open>max_uintx\<close>, and \<open>check_synchronized\<close> returns false.
\<close>

theorem check_synchronized_false_though_all_epochs_reached:
  "check_synchronized True ConcurrentGC_thread \<lparr> required_frontier = 1 \<rparr>
     (example_state 1 0 1 [example_thread 1 False])
   = Inr (False, example_state 1 0 1 [example_thread 1 False])
   \<and> \<not> frontier_happens_before (epoch (example_thread 1 False)) 1
   \<and> frontier_happens_before
        (global_frontier (example_state 1 0 1 [example_thread 1 False])) 1"
  by (simp add: check_synchronized_def check_synchronized_inner_def
      update_epoch_of_caller_def check_frontier_helper_def
      java_threads_do_def do_thread_def G1FindMinEpochAndCollectThreadsClosure_new_def
      frontier_happens_before_def max_uintx_def example_defs)

lemma update_epoch_internal_Inr:
  assumes "update_epoch_internal dbg thread s = Inr s0"
  shows "\<not> (dbg \<and> at_safepoint s)"
    and "at_safepoint s0 = at_safepoint s"
    and "global_frontier s0 = global_frontier s"
    and "pending_sync s0 = pending_sync s"
    and "global_epoch s0 = global_epoch s"
  using assms
  by (cases thread;
      auto simp: update_epoch_internal_def Let_def split: if_splits)+

lemma update_epoch_internal_again:
  assumes "update_epoch_internal dbg thread s = Inr s0"
  shows "update_epoch_internal dbg thread (s0\<lparr> global_frontier := g, pending_sync := p \<rparr>)
           = Inr (s0\<lparr> global_frontier := g, pending_sync := p \<rparr>)"
proof (cases thread)
  case (Java_thread i)
  show ?thesis
  proof (cases "i < length (java_threads s)")
    case True
    with assms Java_thread have safe: "\<not> (dbg \<and> at_safepoint s)"
      and s0: "s0 = s\<lparr> java_threads :=
                 (java_threads s)[i := (java_threads s ! i)\<lparr> epoch := global_epoch s \<rparr>] \<rparr>"
      by (auto simp: update_epoch_internal_def Let_def split: if_splits)
    show ?thesis
      unfolding s0 using True safe Java_thread
      by (simp add: update_epoch_internal_def)
  next
    case False
    with assms Java_thread have "\<not> (dbg \<and> at_safepoint s)" and "s0 = s"
      by (auto simp: update_epoch_internal_def split: if_splits)
    with False Java_thread show ?thesis
      by (simp add: update_epoch_internal_def)
  qed
qed (use assms in \<open>auto simp: update_epoch_internal_def split: if_splits\<close>)

lemma update_epoch_of_caller_Inr:
  assumes "update_epoch_of_caller dbg self s = Inr s0"
  shows "(\<exists>i. self = Java_thread i \<and> update_epoch_internal dbg self s = Inr s0)
       \<or> (self \<noteq> ConcurrentGC_thread \<longrightarrow> \<not> dbg) \<and> (\<forall>i. self \<noteq> Java_thread i) \<and> s0 = s"
  using assms
  by (cases self)
    (simp_all add: update_epoch_of_caller_def update_epoch_self_def split: if_splits)

lemma update_epoch_of_caller_again:
  assumes "update_epoch_of_caller dbg self s = Inr s0"
  shows "update_epoch_of_caller dbg self (s0\<lparr> global_frontier := g, pending_sync := p \<rparr>)
           = Inr (s0\<lparr> global_frontier := g, pending_sync := p \<rparr>)"
proof -
  from update_epoch_of_caller_Inr [OF assms] show ?thesis
  proof
    assume "\<exists>i. self = Java_thread i \<and> update_epoch_internal dbg self s = Inr s0"
    then obtain i where self: "self = Java_thread i"
      and u: "update_epoch_internal dbg self s = Inr s0"
      by blast
    from update_epoch_internal_again [OF u] self show ?thesis
      by (simp add: update_epoch_of_caller_def update_epoch_self_def)
  next
    assume "(self \<noteq> ConcurrentGC_thread \<longrightarrow> \<not> dbg) \<and> (\<forall>i. self \<noteq> Java_thread i) \<and> s0 = s"
    then show ?thesis
      by (cases self) (simp_all add: update_epoch_of_caller_def)
  qed
qed

lemma update_epoch_of_caller_fields:
  assumes "update_epoch_of_caller dbg self s = Inr s0"
  shows "at_safepoint s0 = at_safepoint s"
    and "global_frontier s0 = global_frontier s"
    and "pending_sync s0 = pending_sync s"
    and "global_epoch s0 = global_epoch s"
  using update_epoch_of_caller_Inr [OF assms] update_epoch_internal_Inr [of dbg self s s0]
  by auto

text \<open>
  When the caller's own update passes: a concurrent GC thread always; a Java thread in
  the list, outside a safepoint, whose epoch is at most the global epoch as plain
  unsigned numbers; in a product build, where nothing is asserted, every caller.
\<close>

lemma update_epoch_of_caller_passes:
  assumes "caller_listed self s"
  shows "(\<exists>s0. update_epoch_of_caller dbg self s = Inr s0) \<longleftrightarrow>
           (case self of
              Java_thread i \<Rightarrow>
                \<not> dbg \<or> \<not> at_safepoint s \<and> epoch (java_threads s ! i) \<le> global_epoch s
            | ConcurrentGC_thread \<Rightarrow> True
            | _ \<Rightarrow> \<not> dbg)"
  using assms
  by (cases self)
    (auto simp: update_epoch_of_caller_def update_epoch_self_def update_epoch_internal_def
      caller_listed_def Let_def)

lemma do_thread_cong:
  assumes "java_threads s' = java_threads s"
  shows "do_thread s' cl thread = do_thread s cl thread"
  unfolding do_thread_def assms ..

lemma java_threads_do_cong:
  assumes "java_threads s' = java_threads s"
  shows "java_threads_do s' cl = java_threads_do s cl"
proof -
  have "do_thread s' = do_thread s"
    by (intro ext) (rule do_thread_cong [OF assms])
  then show ?thesis
    unfolding java_threads_do_def assms by (simp only:)
qed

lemma java_threads_do_simps [simp]:
  "java_threads_do (s\<lparr> pending_sync := p \<rparr>) cl = java_threads_do s cl"
  "java_threads_do (s\<lparr> global_frontier := g \<rparr>) cl = java_threads_do s cl"
  by (rule java_threads_do_cong, simp)+

text \<open>
  What \<open>check_synchronized\<close> computes when no assertion fails; \<open>s0\<close> is the state after
  the caller's own epoch update, and the value tested against the required frontier
  is the \<open>min_epoch\<close> of the scan closure.
\<close>

lemma check_synchronized_result:
  assumes "\<not> (dbg \<and> at_safepoint s)"
    and "update_epoch_of_caller dbg self s = Inr s0"
  shows "check_synchronized dbg self this s =
           (if \<not> frontier_happens_before (global_frontier s0) (required_frontier this)
            then Inr (True, dec_pending_sync dbg s0)
            else if \<not> frontier_happens_before
                        (cl_min_epoch (java_threads_do s0
                           (G1FindMinEpochAndCollectThreadsClosure_new
                              (required_frontier this) False [])))
                        (required_frontier this)
            then Inr (True, dec_pending_sync dbg
                   (update_global_frontier
                      (cl_min_epoch (java_threads_do s0
                         (G1FindMinEpochAndCollectThreadsClosure_new
                            (required_frontier this) False []))) s0))
            else Inr (False, s0))"
  using assms
  by (simp add: check_synchronized_def check_synchronized_inner_def check_frontier_helper_def
      Let_def)

lemma check_synchronized_inner_True:
  assumes "check_synchronized_inner dbg self this s = Inr (True, s')"
  obtains s0 where "\<not> (dbg \<and> at_safepoint s)"
    and "update_epoch_of_caller dbg self s = Inr s0"
    and "\<not> frontier_happens_before (global_frontier s0) (required_frontier this) \<and> s' = s0
       \<or> frontier_happens_before (global_frontier s0) (required_frontier this)
         \<and> check_frontier_helper
              (cl_min_epoch (java_threads_do s0
                 (G1FindMinEpochAndCollectThreadsClosure_new (required_frontier this) False [])))
              (required_frontier this) s0 = (True, s')"
  using assms
  by (auto simp: check_synchronized_inner_def Let_def split: if_splits sum.splits)

lemma check_synchronized_inner_True_again:
  assumes "check_synchronized_inner dbg self this s = Inr (True, s')"
  shows "check_synchronized_inner dbg self this (s'\<lparr> pending_sync := p \<rparr>)
           = Inr (True, s'\<lparr> pending_sync := p \<rparr>)"
proof -
  let ?R = "required_frontier this"
  from assms obtain s0 where ok: "\<not> (dbg \<and> at_safepoint s)"
    and pre: "update_epoch_of_caller dbg self s = Inr s0"
    and cases: "\<not> frontier_happens_before (global_frontier s0) ?R \<and> s' = s0
       \<or> frontier_happens_before (global_frontier s0) ?R
         \<and> check_frontier_helper
              (cl_min_epoch (java_threads_do s0
                 (G1FindMinEpochAndCollectThreadsClosure_new ?R False [])))
              ?R s0 = (True, s')"
    by (rule check_synchronized_inner_True)
  let ?m = "cl_min_epoch (java_threads_do s0
                 (G1FindMinEpochAndCollectThreadsClosure_new ?R False []))"
  have safe: "\<not> (dbg \<and> at_safepoint s0)"
    using ok update_epoch_of_caller_fields(1) [OF pre] by simp
  have again: "update_epoch_of_caller dbg self (s0\<lparr> global_frontier := g, pending_sync := p \<rparr>)
           = Inr (s0\<lparr> global_frontier := g, pending_sync := p \<rparr>)" for g
    by (rule update_epoch_of_caller_again [OF pre])
  from cases show ?thesis
  proof
    assume a: "\<not> frontier_happens_before (global_frontier s0) ?R \<and> s' = s0"
    have "s'\<lparr> pending_sync := p \<rparr>
            = s0\<lparr> global_frontier := global_frontier s0, pending_sync := p \<rparr>"
      using a by simp
    then show ?thesis
      using a safe again [of "global_frontier s0"]
      by (simp add: check_synchronized_inner_def)
  next
    assume b: "frontier_happens_before (global_frontier s0) ?R
         \<and> check_frontier_helper ?m ?R s0 = (True, s')"
    then have m: "\<not> frontier_happens_before ?m ?R"
      and s': "s' = update_global_frontier ?m s0"
      by (auto simp: check_frontier_helper_def split: if_splits)
    show ?thesis
    proof (cases "frontier_happens_before (global_frontier s0) ?m")
      case True
      then have e: "s'\<lparr> pending_sync := p \<rparr>
          = s0\<lparr> global_frontier := ?m, pending_sync := p \<rparr>"
        using s' by (simp add: update_global_frontier_def cmpxchg_global_frontier_def)
      show ?thesis
        unfolding e using m safe again [of ?m]
        by (simp add: check_synchronized_inner_def)
    next
      case False
      then have e: "s'\<lparr> pending_sync := p \<rparr>
          = s0\<lparr> global_frontier := global_frontier s0, pending_sync := p \<rparr>"
        using s' by (simp add: update_global_frontier_def)
      show ?thesis
        unfolding e using m b False safe again [of "global_frontier s0"]
        by (simp add: check_synchronized_inner_def check_frontier_helper_def
            update_global_frontier_def Let_def)
    qed
  qed
qed

text \<open>
  Claim C3, as stated, fails.  In a debug build, with the global frontier already at
  the required frontier 6 and \<open>pending_sync = 1\<close>, the first call returns true and
  leaves \<open>pending_sync = 0\<close>; the second call returns true again and decrements
  \<open>pending_sync\<close> a second time, to \<open>2 ^ 64 - 1\<close>.
\<close>

theorem check_synchronized_twice_decrements_twice:
  "check_synchronized True ConcurrentGC_thread \<lparr> required_frontier = 6 \<rparr>
     (example_state 6 6 1 [example_thread 6 False])
   = Inr (True, example_state 6 6 0 [example_thread 6 False])
   \<and> check_synchronized True ConcurrentGC_thread \<lparr> required_frontier = 6 \<rparr>
       (example_state 6 6 0 [example_thread 6 False])
     = Inr (True, example_state 6 6 (2 ^ 64 - 1) [example_thread 6 False])
   \<and> pending_sync (example_state 6 6 (2 ^ 64 - 1) [example_thread 6 False])
     \<noteq> pending_sync (example_state 6 6 0 [example_thread 6 False])"
  by (simp add: check_synchronized_def check_synchronized_inner_def
      update_epoch_of_caller_def dec_pending_sync_def frontier_happens_before_def
      max_uintx_def example_defs)

text \<open>
  Claim C3, amended.  Let the caller, if it is a Java thread, be in the list of Java
  threads.  Once a call of \<open>check_synchronized\<close> has returned true, so that none of its
  debug assertions failed, a second call on the state it left passes the same
  assertions, returns true again and changes nothing but \<open>pending_sync\<close>, which every
  call that returns true decrements: the repeated call decrements it once more in a
  debug build, and changes nothing at all in a product build.
\<close>

theorem check_synchronized_again_after_true:
  assumes "caller_listed self s"
    and "check_synchronized dbg self this s = Inr (True, s1)"
  shows "check_synchronized dbg self this s1 = Inr (True, dec_pending_sync dbg s1)"
proof -
  from assms(2) obtain s' where
    i: "check_synchronized_inner dbg self this s = Inr (True, s')"
    and s1: "s1 = dec_pending_sync dbg s'"
    by (auto simp: check_synchronized_def split: sum.splits prod.splits if_splits)
  have "check_synchronized_inner dbg self this s1 = Inr (True, s1)"
  proof (cases dbg)
    case True
    then show ?thesis
      unfolding s1 dec_pending_sync_def
      using check_synchronized_inner_True_again [OF i] by simp
  next
    case False
    then show ?thesis
      unfolding s1 dec_pending_sync_def
      using check_synchronized_inner_True_again [OF i, of "pending_sync s'"] by simp
  qed
  then show ?thesis
    by (simp add: check_synchronized_def)
qed

theorem check_synchronized_again_witness:
  "caller_listed (Java_thread 0) (example_state 6 6 1 [example_thread 5 False])
   \<and> check_synchronized True (Java_thread 0) \<lparr> required_frontier = 6 \<rparr>
       (example_state 6 6 1 [example_thread 5 False])
     = Inr (True, example_state 6 6 0 [example_thread 6 False])
   \<and> check_synchronized True (Java_thread 0) \<lparr> required_frontier = 6 \<rparr>
       (example_state 6 6 0 [example_thread 6 False])
     = Inr (True, example_state 6 6 (2 ^ 64 - 1) [example_thread 6 False])
   \<and> check_synchronized False (Java_thread 0) \<lparr> required_frontier = 6 \<rparr>
       (example_state 6 6 0 [example_thread 6 False])
     = Inr (True, example_state 6 6 0 [example_thread 6 False])"
proof -
  have l: "caller_listed (Java_thread 0) (example_state 6 6 p [example_thread e False])" for p e
    by (simp add: caller_listed_def example_defs)
  have h: "check_synchronized True (Java_thread 0) \<lparr> required_frontier = 6 \<rparr>
             (example_state 6 6 1 [example_thread 5 False])
           = Inr (True, example_state 6 6 0 [example_thread 6 False])"
    by (simp add: check_synchronized_def check_synchronized_inner_def
        update_epoch_of_caller_def update_epoch_self_def update_epoch_internal_def
        dec_pending_sync_def frontier_happens_before_def max_uintx_def example_defs)
  have k: "check_synchronized False (Java_thread 0) \<lparr> required_frontier = 6 \<rparr>
             (example_state 6 6 0 [example_thread 6 False])
           = Inr (True, example_state 6 6 0 [example_thread 6 False])"
    by (simp add: check_synchronized_def check_synchronized_inner_def
        update_epoch_of_caller_def update_epoch_self_def update_epoch_internal_def
        dec_pending_sync_def frontier_happens_before_def max_uintx_def example_defs)
  show ?thesis
    using l [of 1 5] h check_synchronized_again_after_true [OF l h]
      check_synchronized_again_after_true [OF l k]
    by (simp add: dec_pending_sync_def example_defs)
qed

subsection \<open>An initiator that does not start a synchronization\<close>

text \<open>
  Claim C4, as stated, fails.  In a debug build that starts with every counter 0, the
  constructor with \<open>start_sync = false\<close> leaves the state alone, but the first
  \<open>check_synchronized\<close> returns true and decrements \<open>pending_sync\<close> from 0 to
  \<open>2 ^ 64 - 1\<close>.  And where the global frontier has passed half the counter's range, here
  \<open>2 ^ 63\<close>, it happens before 0 in the wrap-aware order: the call scans the threads and
  returns false.
\<close>

theorem check_synchronized_without_start_decrements:
  "G1EpochSynchronizer_new True False (example_state 0 0 0 [])
     = Inr (\<lparr> required_frontier = 0 \<rparr>, example_state 0 0 0 [])
   \<and> check_synchronized True ConcurrentGC_thread \<lparr> required_frontier = 0 \<rparr>
       (example_state 0 0 0 [])
     = Inr (True, example_state 0 0 (2 ^ 64 - 1) [])
   \<and> pending_sync (example_state 0 0 (2 ^ 64 - 1) []) \<noteq> pending_sync (example_state 0 0 0 [])
   \<and> G1EpochSynchronizer_new True False
       (example_state (2 ^ 63) (2 ^ 63) 0 [example_thread (2 ^ 63) False])
     = Inr (\<lparr> required_frontier = 0 \<rparr>,
            example_state (2 ^ 63) (2 ^ 63) 0 [example_thread (2 ^ 63) False])
   \<and> check_synchronized True ConcurrentGC_thread \<lparr> required_frontier = 0 \<rparr>
       (example_state (2 ^ 63) (2 ^ 63) 0 [example_thread (2 ^ 63) False])
     = Inr (False, example_state (2 ^ 63) (2 ^ 63) 0 [example_thread (2 ^ 63) False])"
  by (simp add: G1EpochSynchronizer_new_def check_synchronized_def check_synchronized_inner_def
      update_epoch_of_caller_def dec_pending_sync_def check_frontier_helper_def
      java_threads_do_def do_thread_def G1FindMinEpochAndCollectThreadsClosure_new_def
      frontier_happens_before_def max_uintx_def example_defs)

text \<open>
  Claim C4, amended.  The constructor with \<open>start_sync = false\<close> gives the required
  frontier 0 and leaves the state, \<open>pending_sync\<close> included, unchanged.  Let no debug
  assertion of the first \<open>check_synchronized\<close> fail: the virtual machine is not at a
  safepoint, and the caller's own epoch update passes and leaves the state \<open>s0\<close> (the
  caller is a concurrent GC thread, or a Java thread of the list whose epoch is at most
  the global epoch as plain unsigned numbers; a product build asserts nothing).  When
  the global frontier is at most \<open>max_uintx / 2\<close>, that call returns true without
  scanning the threads; as every call that returns true, it decrements \<open>pending_sync\<close>
  by one in a debug build, and leaves it alone in a product build.
\<close>

theorem check_synchronized_without_start:
  assumes "\<not> (dbg \<and> at_safepoint s)"
    and "caller_listed self s"
    and "update_epoch_of_caller dbg self s = Inr s0"
    and "global_frontier s \<le> max_uintx div 2"
  shows "G1EpochSynchronizer_new dbg False s = Inr (\<lparr> required_frontier = 0 \<rparr>, s)
       \<and> check_synchronized dbg self \<lparr> required_frontier = 0 \<rparr> s
           = Inr (True, dec_pending_sync dbg s0)
       \<and> pending_sync (dec_pending_sync dbg s0)
           = (if dbg then pending_sync s - 1 else pending_sync s)"
proof -
  have "\<not> frontier_happens_before (global_frontier s0) 0"
    using assms(4) update_epoch_of_caller_fields(2) [OF assms(3)]
    by (simp add: frontier_happens_before_def not_less)
  then have "check_synchronized_inner dbg self \<lparr> required_frontier = 0 \<rparr> s = Inr (True, s0)"
    using assms(1,3) by (simp add: check_synchronized_inner_def)
  then show ?thesis
    using update_epoch_of_caller_fields(3) [OF assms(3)]
    by (simp add: G1EpochSynchronizer_new_def check_synchronized_def dec_pending_sync_def)
qed

theorem check_synchronized_without_start_witness:
  "\<not> (True \<and> at_safepoint (example_state 3 2 1 [example_thread 2 False]))
   \<and> caller_listed (Java_thread 0) (example_state 3 2 1 [example_thread 2 False])
   \<and> update_epoch_of_caller True (Java_thread 0) (example_state 3 2 1 [example_thread 2 False])
       = Inr (example_state 3 2 1 [example_thread 3 False])
   \<and> global_frontier (example_state 3 2 1 [example_thread 2 False]) \<le> max_uintx div 2
   \<and> check_synchronized False (Java_thread 0) \<lparr> required_frontier = 0 \<rparr>
        (example_state 3 2 1 [example_thread 2 False])
       = Inr (True, example_state 3 2 1 [example_thread 3 False])
   \<and> check_synchronized True (Java_thread 0) \<lparr> required_frontier = 0 \<rparr>
        (example_state 3 2 1 [example_thread 2 False])
       = Inr (True, example_state 3 2 0 [example_thread 3 False])
   \<and> check_synchronized True (Java_thread 0) \<lparr> required_frontier = 0 \<rparr>
        (example_state 3 2 1 [example_thread 7 False])
       = Inl (AssertionFailure ''Epoch overflow'')"
proof -
  let ?s = "example_state 3 2 1 [example_thread 2 False]"
  have h1: "\<not> (dbg \<and> at_safepoint ?s)" for dbg
    by (simp add: example_defs)
  have h2: "caller_listed (Java_thread 0) ?s"
    by (simp add: caller_listed_def example_defs)
  have h3: "update_epoch_of_caller dbg (Java_thread 0) ?s
       = Inr (example_state 3 2 1 [example_thread 3 False])" for dbg
    by (simp add: update_epoch_of_caller_def update_epoch_self_def update_epoch_internal_def
        example_defs)
  have h4: "global_frontier ?s \<le> max_uintx div 2"
    by (simp add: max_uintx_def example_defs)
  have o: "check_synchronized True (Java_thread 0) \<lparr> required_frontier = 0 \<rparr>
        (example_state 3 2 1 [example_thread 7 False])
       = Inl (AssertionFailure ''Epoch overflow'')"
    by (simp add: check_synchronized_def check_synchronized_inner_def
        update_epoch_of_caller_def update_epoch_self_def update_epoch_internal_def
        example_defs)
  show ?thesis
    using h1 [of True] h2 h3 [of True] h4 o
      check_synchronized_without_start [OF h1 h2 h3 h4, of False]
      check_synchronized_without_start [OF h1 h2 h3 h4, of True]
    by (simp add: dec_pending_sync_def example_defs)
qed

subsection \<open>\<open>synchronize\<close>\<close>










end
